theory Spec2Isabelle
  imports Main "HOL-Library.AList"
begin

text \<open>
  A model of the Express middleware of logstyx-js-express: the redactor, the payload
  builder, the outcome classifier, the wrapped response operations of the success handler
  and the error handler. The repository holds two versions of the middleware file. The
  model follows the later one, which has the warning path (\<open>shouldLogWarning\<close>,
  \<open>logWarning\<close>); \<open>lib/middleware.js\<close> is the same file without that path, with
  the same \<open>logSuccess\<close>, \<open>logError\<close>, \<open>createErrorHandler\<close>,
  \<open>buildFinalPayload\<close> and \<open>redactObject\<close>.
\<close>

section \<open>JavaScript values\<close>

text \<open>
  The values that travel through the middleware (request bodies, response payloads,
  log records) are JSON-like JavaScript values. \<open>JNaN\<close> is the number \<open>NaN\<close>
  (the result of \<open>Date.now() - undefined\<close>). An object is the list of its own enumerable
  properties in \<open>Object.entries\<close> order. \<open>JDoc kvs\<close> is an object that exposes a
  \<open>toObject\<close> method (a Mongoose document) whose \<open>toObject()\<close> is the plain object
  with the entries \<open>kvs\<close>. Numbers are integers, strings are ASCII, arrays have no holes,
  and object graphs are finite trees (no cycles, no shared mutable nodes).
  Functions are not among the values, so no own property holds a function.
  Only the values stored under the keys matter below, so the rule of JavaScript that
  lists integer-like keys first is left out.
\<close>

datatype jsval =
    JUndefined
  | JNull
  | JBool bool
  | JNum int
  | JNaN
  | JStr string
  | JArr "jsval list"
  | JObj "(string \<times> jsval) list"
  | JDoc "(string \<times> jsval) list"

type_synonym jsobject = "(string \<times> jsval) list"

text \<open>Truthiness, as used by \<open>!x\<close>, \<open>x || y\<close> and \<open>x ? y : z\<close>.\<close>

fun truthy :: "jsval \<Rightarrow> bool" where
  "truthy JUndefined = False"
| "truthy JNull = False"
| "truthy (JBool b) = b"
| "truthy (JNum n) = (n \<noteq> 0)"
| "truthy JNaN = False"
| "truthy (JStr s) = (s \<noteq> [])"
| "truthy (JArr vs) = True"
| "truthy (JObj kvs) = True"
| "truthy (JDoc kvs) = True"

text \<open>\<open>v !== null && typeof v === "object"\<close>\<close>

fun isObject :: "jsval \<Rightarrow> bool" where
  "isObject (JArr vs) = True"
| "isObject (JObj kvs) = True"
| "isObject (JDoc kvs) = True"
| "isObject v = False"

text \<open>\<open>String.prototype.toLowerCase\<close> on ASCII strings.\<close>

definition toLowerCase_char :: "char \<Rightarrow> char" where
  "toLowerCase_char c =
     (case map_of (zip ''ABCDEFGHIJKLMNOPQRSTUVWXYZ'' ''abcdefghijklmnopqrstuvwxyz'') c of
        None \<Rightarrow> c
      | Some l \<Rightarrow> l)"

definition toLowerCase :: "string \<Rightarrow> string" where
  "toLowerCase s = map toLowerCase_char s"

text \<open>Decimal rendering of numbers: array indices as property keys, and numbers inside
  template strings.\<close>

definition digit_char :: "nat \<Rightarrow> char" where
  "digit_char d = ''0123456789'' ! (d mod 10)"

fun show_nat :: "nat \<Rightarrow> string" where
  "show_nat n = (if n < 10 then [digit_char n] else show_nat (n div 10) @ [digit_char n])"

definition show_int :: "int \<Rightarrow> string" where
  "show_int i = (if i < 0 then CHR ''-'' # show_nat (nat (- i)) else show_nat (nat i))"

text \<open>
  Object literals and spread. \<open>o[k] = v\<close> overwrites the value of an existing key in place
  and appends a new key otherwise, which is \<^const>\<open>AList.update\<close>. A literal
  \<open>{k1: v1, ...src, k2: v2}\<close> defines its properties from left to right, so a later
  property of the same name wins.
\<close>

definition spread :: "jsobject \<Rightarrow> jsobject \<Rightarrow> jsobject" where
  "spread target src = foldl (\<lambda>out (k, v). AList.update k v out) target src"

definition objectLiteral :: "jsobject \<Rightarrow> jsobject" where
  "objectLiteral props = spread [] props"

section \<open>Redactor\<close>

text \<open>
  \<open>redactObject(obj, redactFields)\<close>. Primitives (anything falsy or not of type
  \<open>"object"\<close>) are returned as they are. A document is first replaced by its
  \<open>toObject()\<close>. The loop over \<open>Object.entries(obj)\<close> is \<open>redactProps\<close> for an object
  and \<open>redactElems\<close> for an array, whose keys are the indices \<open>"0"\<close>, \<open>"1"\<close>, ...;
  \<open>redactEntry\<close> is the loop body, which computes \<open>out[k]\<close>. The key is lower-cased,
  the entries of \<open>redactFields\<close> are compared as they are given.
\<close>

fun redactObject :: "jsval \<Rightarrow> string list \<Rightarrow> jsval"
and redactEntry :: "string \<Rightarrow> jsval \<Rightarrow> string list \<Rightarrow> jsval"
and redactProps :: "jsobject \<Rightarrow> string list \<Rightarrow> jsobject"
and redactElems :: "nat \<Rightarrow> jsval list \<Rightarrow> string list \<Rightarrow> jsval list"
where
  "redactObject (JArr vs) redactFields = JArr (redactElems 0 vs redactFields)"
| "redactObject (JObj kvs) redactFields = JObj (redactProps kvs redactFields)"
| "redactObject (JDoc kvs) redactFields = JObj (redactProps kvs redactFields)"
| "redactObject obj redactFields = obj"
| "redactEntry k v redactFields =
     (if toLowerCase k \<in> set redactFields then JStr ''[REDACTED]''
      else if isObject v then redactObject v redactFields
      else v)"
| "redactProps [] redactFields = []"
| "redactProps ((k, v) # kvs) redactFields =
     (k, redactEntry k v redactFields) # redactProps kvs redactFields"
| "redactElems i [] redactFields = []"
| "redactElems i (v # vs) redactFields =
     redactEntry (show_nat i) v redactFields # redactElems (Suc i) vs redactFields"

section \<open>Configuration, requests, responses\<close>

text \<open>A raised JavaScript exception, with its message.\<close>

datatype exn = Thrown string

text \<open>
  The sink \<open>config.logstyx\<close>: \<open>config.logstyx[level](logData)\<close> either returns
  (\<open>None\<close>) or raises (\<open>Some e\<close>); a level the sink has no method for raises a
  \<open>TypeError\<close>.
\<close>

type_synonym sink = "string \<Rightarrow> jsobject \<Rightarrow> exn option"

record logLevels =
  success :: string
  error :: string
  critical :: string
  warning :: string

text \<open>The request fields the handlers read; \<open>startTime\<close> is \<open>req._startTime\<close>,
  \<open>None\<close> while it is \<open>undefined\<close>.\<close>

record request =
  "method" :: string
  path :: string
  body :: jsval
  startTime :: "int option"

record response =
  statusCode :: int

text \<open>
  The merged \<open>config\<close> object of \<open>createExpressMiddleware\<close>. The payload builder and the
  context hook return plain objects and do not raise.
\<close>

record config =
  logstyx :: sink
  redactFields :: "string list"
  buildRequestPayload :: "request \<Rightarrow> jsobject"
  contextHook :: "(request \<Rightarrow> jsobject) option"
  trackPerformance :: bool
  slowRequestThreshold :: int
  logLevels :: logLevels

text \<open>The defaults of \<open>createExpressMiddleware\<close> for the options that are not given.\<close>

definition defaultRedactFields :: "string list" where
  "defaultRedactFields =
     [''mobile'', ''phone'', ''email'', ''password'', ''token'', ''authorization'', ''creditCard'']"

definition defaultLogLevels :: logLevels where
  "defaultLogLevels =
     \<lparr>success = ''SUCCESS'', error = ''ERROR'', critical = ''CRITICAL'', warning = ''WARNING''\<rparr>"

definition createConfig :: "sink \<Rightarrow> (request \<Rightarrow> jsobject) \<Rightarrow> config" where
  "createConfig logstyxInstance builder =
     \<lparr>logstyx = logstyxInstance,
      redactFields = defaultRedactFields,
      buildRequestPayload = builder,
      contextHook = None,
      trackPerformance = True,
      slowRequestThreshold = 1000,
      logLevels = defaultLogLevels\<rparr>"

text \<open>
  The state one request's handlers act on: the closure variable \<open>logged\<close> of the success
  handler, the calls made to the sink so far (level and record, in order), and the state
  of the host framework (the real response object and the rest of the pipeline).
\<close>

record 'w istate =
  logged :: bool
  sinkCalls :: "(string \<times> jsobject) list"
  host :: 'w

section \<open>Payload builder\<close>

text \<open>
  \<open>buildFinalPayload(req, config)\<close>: the builder's context, shallow-merged with the hook's
  fields when a hook is configured, then redacted. The context is a plain object, so its
  redaction is the loop \<^const>\<open>redactProps\<close> over its entries.
\<close>

definition buildFinalPayload :: "request \<Rightarrow> config \<Rightarrow> jsobject" where
  "buildFinalPayload req config =
     (let context = buildRequestPayload config req;
          context' = (case contextHook config of
                        None \<Rightarrow> context
                      | Some hook \<Rightarrow> spread (spread [] context) (hook req))
      in redactProps context' (redactFields config))"

section \<open>Outcome classifier\<close>

text \<open>
  Every \<open>Date.now()\<close> of the source is a parameter \<open>now\<close> of the function that reads
  the clock. \<open>req._startTime\<close> is truthy when it is defined and not \<open>0\<close>.

  \<open>shouldLogSuccess(res, req, config)\<close> has an optional third parameter: with
  \<open>config\<close> undefined, \<open>config?.trackPerformance\<close> is undefined and the slow check is
  skipped.
\<close>

definition shouldLogSuccess :: "response \<Rightarrow> request \<Rightarrow> config option \<Rightarrow> int \<Rightarrow> bool" where
  "shouldLogSuccess res req config now =
     (let isSuccessful = (200 \<le> statusCode res \<and> statusCode res < 300);
          isMutation = (method req \<in> set [''POST'', ''PUT'', ''PATCH'', ''DELETE''])
      in if \<not> isMutation then False
         else (case config of
                 None \<Rightarrow> isSuccessful
               | Some c \<Rightarrow>
                   (case startTime req of
                      None \<Rightarrow> isSuccessful
                    | Some t \<Rightarrow>
                        if trackPerformance c \<and> t \<noteq> 0 \<and> slowRequestThreshold c < now - t
                        then False
                        else isSuccessful)))"

definition shouldLogWarning :: "response \<Rightarrow> request \<Rightarrow> config option \<Rightarrow> int \<Rightarrow> bool" where
  "shouldLogWarning res req config now =
     (case config of
        None \<Rightarrow> False
      | Some c \<Rightarrow>
          (case startTime req of
             None \<Rightarrow> False
           | Some t \<Rightarrow>
               if \<not> trackPerformance c \<or> t = 0 then False
               else (let responseTime = now - t;
                         isSlow = (slowRequestThreshold c < responseTime);
                         isSuccessful = (200 \<le> statusCode res \<and> statusCode res < 300)
                     in isSuccessful \<and> isSlow)))"

section \<open>Log records\<close>

text \<open>
  \<open>responseTime = config.trackPerformance ? Date.now() - req._startTime : null\<close> is
  \<open>null\<close>, \<open>NaN\<close> (no start time was recorded) or a number of milliseconds.
\<close>

datatype timing = NullTime | NaNTime | Millis int

definition responseTimeOf :: "config \<Rightarrow> request \<Rightarrow> int \<Rightarrow> timing" where
  "responseTimeOf config req now =
     (if trackPerformance config
      then (case startTime req of None \<Rightarrow> NaNTime | Some t \<Rightarrow> Millis (now - t))
      else NullTime)"

fun timingValue :: "timing \<Rightarrow> jsval" where
  "timingValue NullTime = JNull"
| "timingValue NaNTime = JNaN"
| "timingValue (Millis n) = JNum n"

text \<open>\<open>`${responseTime}`\<close>\<close>

fun timingString :: "timing \<Rightarrow> string" where
  "timingString NullTime = ''null''"
| "timingString NaNTime = ''NaN''"
| "timingString (Millis n) = show_int n"

text \<open>\<open>responseTime > threshold\<close>: \<open>null\<close> is converted to \<open>0\<close>, and every comparison
  with \<open>NaN\<close> is false.\<close>

fun exceeds :: "timing \<Rightarrow> int \<Rightarrow> bool" where
  "exceeds NullTime threshold = (threshold < 0)"
| "exceeds NaNTime threshold = False"
| "exceeds (Millis n) threshold = (threshold < n)"

datatype emitOp = Send | Json | End

text \<open>\<open>args[0]\<close>\<close>

fun firstArg :: "jsval list \<Rightarrow> jsval" where
  "firstArg [] = JUndefined"
| "firstArg (a # as) = a"

text \<open>The \<open>logData\<close> literal of \<open>logSuccess\<close>.\<close>

definition successLogData ::
    "request \<Rightarrow> response \<Rightarrow> emitOp \<Rightarrow> jsval list \<Rightarrow> config \<Rightarrow> int \<Rightarrow> jsobject" where
  "successLogData req res m args config now =
     (let responseTime = responseTimeOf config req now;
          requestPayload = buildFinalPayload req config
      in objectLiteral
           ([(''title'', JStr (method req @ '' '' @ path req)),
             (''message'', JStr ''Request completed successfully'')]
            @ requestPayload
            @ [(''body'', redactObject (body req) (redactFields config)),
               (''response'', if m = Json \<or> m = Send
                              then redactObject (firstArg args) (redactFields config)
                              else JNull),
               (''responseTime'', timingValue responseTime),
               (''statusCode'', JNum (statusCode res)),
               (''isSlow'', JBool (exceeds responseTime (slowRequestThreshold config)))]))"

text \<open>The \<open>logData\<close> literal of \<open>logWarning\<close>.\<close>

definition warningLogData ::
    "request \<Rightarrow> response \<Rightarrow> emitOp \<Rightarrow> jsval list \<Rightarrow> config \<Rightarrow> int \<Rightarrow> jsobject" where
  "warningLogData req res m args config now =
     (let responseTime = responseTimeOf config req now;
          requestPayload = buildFinalPayload req config
      in objectLiteral
           ([(''title'', JStr (method req @ '' '' @ path req)),
             (''message'', JStr (''Slow request detected ('' @ timingString responseTime @ ''ms)''))]
            @ requestPayload
            @ [(''body'', redactObject (body req) (redactFields config)),
               (''response'', if m = Json \<or> m = Send
                              then redactObject (firstArg args) (redactFields config)
                              else JNull),
               (''responseTime'', timingValue responseTime),
               (''statusCode'', JNum (statusCode res)),
               (''isSlow'', JBool (exceeds responseTime (slowRequestThreshold config)))]))"

text \<open>\<open>config.logstyx[level](logData)\<close>: the call is recorded, and its outcome returned.\<close>

definition callSink :: "config \<Rightarrow> string \<Rightarrow> jsobject \<Rightarrow> 'w istate \<Rightarrow> exn option \<times> 'w istate" where
  "callSink config level logData st =
     (logstyx config level logData, st\<lparr>sinkCalls := sinkCalls st @ [(level, logData)]\<rparr>)"

definition logSuccess ::
    "request \<Rightarrow> response \<Rightarrow> emitOp \<Rightarrow> jsval list \<Rightarrow> config \<Rightarrow> int \<Rightarrow> 'w istate
       \<Rightarrow> exn option \<times> 'w istate" where
  "logSuccess req res m args config now st =
     callSink config (success (logLevels config)) (successLogData req res m args config now) st"

definition logWarning ::
    "request \<Rightarrow> response \<Rightarrow> emitOp \<Rightarrow> jsval list \<Rightarrow> config \<Rightarrow> int \<Rightarrow> 'w istate
       \<Rightarrow> exn option \<times> 'w istate" where
  "logWarning req res m args config now st =
     callSink config (warning (logLevels config)) (warningLogData req res m args config now) st"

section \<open>Response interceptor\<close>

text \<open>
  \<open>createSuccessHandler(config)\<close> returns the middleware; run on a request it starts with
  \<open>logged = false\<close>, replaces \<open>res.send\<close>, \<open>res.json\<close> and \<open>res.end\<close> by the wrapped
  operations below, and stamps \<open>req._startTime\<close> when performance is tracked.
\<close>

definition successHandler :: "config \<Rightarrow> request \<Rightarrow> int \<Rightarrow> 'w istate \<Rightarrow> request \<times> 'w istate" where
  "successHandler config req now st =
     ((if trackPerformance config then req\<lparr>startTime := Some now\<rparr> else req),
      st\<lparr>logged := False\<rparr>)"

text \<open>
  One call \<open>res[via](...args)\<close> of a wrapped operation: the operation called, its
  arguments, the response's status at that moment, and the readings of the clock during
  the call (\<open>logSuccess\<close> and \<open>shouldLogWarning\<close> take the first reading of a call,
  \<open>logWarning\<close> the second).
\<close>

record call =
  via :: emitOp
  args :: "jsval list"
  res :: response
  now1 :: int
  now2 :: int

text \<open>
  The wrapped operation. \<open>originals\<close> are the operations of the host framework that the
  handler saved; they act on the host's state and return a value. The source calls
  \<open>shouldLogSuccess(res, req)\<close> with two arguments, so its \<open>config\<close> is undefined. An
  exception raised by a log function leaves the function at once: the state changes made
  so far stay, the rest is not run.
\<close>

definition wrapped ::
    "config \<Rightarrow> request \<Rightarrow> (emitOp \<Rightarrow> jsval list \<Rightarrow> 'w \<Rightarrow> 'r \<times> 'w) \<Rightarrow> call \<Rightarrow> 'w istate
       \<Rightarrow> (exn + 'r) \<times> 'w istate" where
  "wrapped config req originals c st =
     (let (thrown1, st1) =
            (if \<not> logged st \<and> shouldLogSuccess (res c) req None (now1 c)
             then logSuccess req (res c) (via c) (args c) config (now1 c) (st\<lparr>logged := True\<rparr>)
             else (None, st))
      in case thrown1 of
           Some e \<Rightarrow> (Inl e, st1)
         | None \<Rightarrow>
             (let (thrown2, st2) =
                    (if \<not> logged st1 \<and> shouldLogWarning (res c) req (Some config) (now1 c)
                     then logWarning req (res c) (via c) (args c) config (now2 c)
                            (st1\<lparr>logged := True\<rparr>)
                     else (None, st1))
              in case thrown2 of
                   Some e \<Rightarrow> (Inl e, st2)
                 | None \<Rightarrow>
                     (let (r, h) = originals (via c) (args c) (host st2)
                      in (Inr r, st2\<lparr>host := h\<rparr>))))"

text \<open>A sequence of calls of the wrapped operations within one request. A call that
  raised has still changed the state, and the application may go on calling.\<close>

fun runCalls ::
    "config \<Rightarrow> request \<Rightarrow> (emitOp \<Rightarrow> jsval list \<Rightarrow> 'w \<Rightarrow> 'r \<times> 'w) \<Rightarrow> call list \<Rightarrow> 'w istate
       \<Rightarrow> 'w istate" where
  "runCalls config req originals [] st = st"
| "runCalls config req originals (c # cs) st =
     runCalls config req originals cs (snd (wrapped config req originals c st))"

section \<open>Error path\<close>

text \<open>
  The fields of a thrown error that the handlers read. \<open>errName\<close> is
  \<open>err.constructor.name\<close>. The two status fields are numbers or undefined.
\<close>

record jsError =
  errMessage :: jsval
  errStack :: jsval
  errName :: jsval
  errCode :: jsval
  errStatusCode :: "int option"
  errStatus :: "int option"

text \<open>\<open>x || d\<close> for a status field \<open>x\<close>: \<open>undefined\<close> and \<open>0\<close> are falsy.\<close>

fun orElse :: "int option \<Rightarrow> int \<Rightarrow> int" where
  "orElse None d = d"
| "orElse (Some n) d = (if n \<noteq> 0 then n else d)"

text \<open>The \<open>logData\<close> literal of \<open>logError\<close>.\<close>

definition errorLogData :: "jsError \<Rightarrow> request \<Rightarrow> config \<Rightarrow> int \<Rightarrow> jsobject" where
  "errorLogData err req config now =
     (let responseTime = responseTimeOf config req now;
          requestPayload = buildFinalPayload req config
      in objectLiteral
           ([(''title'', JStr (method req @ '' '' @ path req)),
             (''message'', errMessage err)]
            @ requestPayload
            @ [(''stack'', errStack err),
               (''errorType'', errName err),
               (''code'', errCode err),
               (''body'', redactObject (body req) (redactFields config)),
               (''responseTime'', timingValue responseTime),
               (''statusCode'', JNum (orElse (errStatusCode err) (orElse (errStatus err) 500)))]))"

text \<open>\<open>err.statusCode >= 500 ? config.logLevels.critical : config.logLevels.error\<close>;
  \<open>undefined >= 500\<close> is false.\<close>

definition errorLogLevel :: "jsError \<Rightarrow> config \<Rightarrow> string" where
  "errorLogLevel err config =
     (if (case errStatusCode err of None \<Rightarrow> False | Some n \<Rightarrow> 500 \<le> n)
      then critical (logLevels config)
      else error (logLevels config))"

definition logError ::
    "jsError \<Rightarrow> request \<Rightarrow> config \<Rightarrow> int \<Rightarrow> 'w istate \<Rightarrow> exn option \<times> 'w istate" where
  "logError err req config now st =
     callSink config (errorLogLevel err config) (errorLogData err req config now) st"

text \<open>The body of the client's JSON response; \<open>development\<close> is
  \<open>process.env.NODE_ENV === 'development'\<close>.\<close>

definition errorBody :: "bool \<Rightarrow> jsError \<Rightarrow> jsval" where
  "errorBody development err =
     JObj (objectLiteral
       ((''error'', if truthy (errMessage err) then errMessage err
                    else JStr ''Internal Server Error'')
        # (if development then [(''stack'', errStack err)] else [])))"

text \<open>
  The error-handling middleware. \<open>respond s b\<close> is the host's
  \<open>res.status(s).json(b)\<close> and \<open>next e\<close> the host's \<open>next(e)\<close>, both acting on the
  host's state.
\<close>

definition errorHandler ::
    "config \<Rightarrow> bool \<Rightarrow> (int \<Rightarrow> jsval \<Rightarrow> 'w \<Rightarrow> 'w) \<Rightarrow> (jsError \<Rightarrow> 'w \<Rightarrow> 'w)
       \<Rightarrow> jsError \<Rightarrow> request \<Rightarrow> int \<Rightarrow> 'w istate \<Rightarrow> exn option \<times> 'w istate" where
  "errorHandler config development respond next err req now st =
     (let statusCode = orElse (errStatusCode err) (orElse (errStatus err) 500);
          st1 = st\<lparr>host := respond statusCode (errorBody development err) (host st)\<rparr>;
          (thrown, st2) = logError err req config now st1
      in case thrown of
           Some e \<Rightarrow> (Some e, st2)
         | None \<Rightarrow> (None, st2\<lparr>host := next err (host st2)\<rparr>))"

section \<open>The automatic log of a call\<close>

text \<open>
  Whether a call of a wrapped operation passes one of the two tests of the wrapper, and
  the level and record the wrapper then hands to the sink: the success test is tried
  first, the warning test only when it failed.
\<close>

definition autoLogFires :: "config \<Rightarrow> request \<Rightarrow> call \<Rightarrow> bool" where
  "autoLogFires config req c =
     (shouldLogSuccess (res c) req None (now1 c)
      \<or> shouldLogWarning (res c) req (Some config) (now1 c))"

definition autoLog :: "config \<Rightarrow> request \<Rightarrow> call \<Rightarrow> string \<times> jsobject" where
  "autoLog config req c =
     (if shouldLogSuccess (res c) req None (now1 c)
      then (success (logLevels config),
            successLogData req (res c) (via c) (args c) config (now1 c))
      else (warning (logLevels config),
            warningLogData req (res c) (via c) (args c) config (now2 c)))"

section \<open>Example inputs\<close>

text \<open>
  A host whose operations record that they were called, two sinks (one accepts every
  record, one raises on every record), the default configuration around them, and a
  request to \<open>/users\<close> that the success handler stamped at time \<open>1700000000000\<close>.
\<close>

datatype hostEvent =
    Underlying emitOp "jsval list"
  | Responded int jsval
  | Forwarded jsError

definition recordingOriginals ::
    "emitOp \<Rightarrow> jsval list \<Rightarrow> hostEvent list \<Rightarrow> string \<times> hostEvent list" where
  "recordingOriginals m as h = (''sent'', h @ [Underlying m as])"

definition recordingRespond :: "int \<Rightarrow> jsval \<Rightarrow> hostEvent list \<Rightarrow> hostEvent list" where
  "recordingRespond s b h = h @ [Responded s b]"

definition recordingNext :: "jsError \<Rightarrow> hostEvent list \<Rightarrow> hostEvent list" where
  "recordingNext e h = h @ [Forwarded e]"

definition acceptingSink :: sink where
  "acceptingSink level logData = None"

definition failingSink :: sink where
  "failingSink level logData = Some (Thrown ''sink unavailable'')"

definition exampleBuilder :: "request \<Rightarrow> jsobject" where
  "exampleBuilder req = [(''method'', JStr (method req)), (''path'', JStr (path req))]"

definition exampleConfig :: config where
  "exampleConfig = createConfig acceptingSink exampleBuilder"

definition faultyConfig :: config where
  "faultyConfig = createConfig failingSink exampleBuilder"

definition untrackedConfig :: config where
  "untrackedConfig = exampleConfig\<lparr>trackPerformance := False, slowRequestThreshold := - 1\<rparr>"

definition incomingRequest :: "string \<Rightarrow> request" where
  "incomingRequest m =
     \<lparr>method = m, path = ''/users'',
      body = JObj [(''name'', JStr ''Ann''), (''password'', JStr ''hunter2'')],
      startTime = None\<rparr>"

definition exampleRequest :: "string \<Rightarrow> request" where
  "exampleRequest m = (incomingRequest m)\<lparr>startTime := Some 1700000000000\<rparr>"

definition callAt :: "emitOp \<Rightarrow> jsval list \<Rightarrow> int \<Rightarrow> int \<Rightarrow> call" where
  "callAt m as status elapsed =
     \<lparr>via = m, args = as, res = \<lparr>statusCode = status\<rparr>,
      now1 = 1700000000000 + elapsed, now2 = 1700000000000 + elapsed\<rparr>"

definition initialState :: "hostEvent list istate" where
  "initialState = \<lparr>logged = False, sinkCalls = [], host = []\<rparr>"

definition exampleError :: "int option \<Rightarrow> int option \<Rightarrow> jsError" where
  "exampleError sc s =
     \<lparr>errMessage = JStr ''upstream unavailable'',
      errStack = JStr ''Error: upstream unavailable'',
      errName = JStr ''Error'', errCode = JUndefined,
      errStatusCode = sc, errStatus = s\<rparr>"

section \<open>Properties of the redactor\<close>

lemma isObject_redactObject: "isObject v \<Longrightarrow> isObject (redactObject v F)"
  by (cases v) simp_all

lemma redact_twice:
  "redactObject (redactObject obj F) F = redactObject obj F"
  "redactEntry k (redactEntry k v F) F = redactEntry k v F"
  "redactProps (redactProps kvs F) F = redactProps kvs F"
  "redactElems i (redactElems i vs F) F = redactElems i vs F"
  by (induction obj F and k v F and kvs F and i vs F
       rule: redactObject_redactEntry_redactProps_redactElems.induct)
     (simp_all add: isObject_redactObject)

text \<open>
  Claim C7 (redaction idempotence): for every value \<open>x\<close> and every field list \<open>F\<close>,
  redacting the redacted value again changes nothing:
  \<open>redact(redact(x, F), F) = redact(x, F)\<close>.
\<close>

theorem redact_idempotent:
  "redactObject (redactObject x F) F = redactObject x F"
  by (rule redact_twice(1))

text \<open>At one level of a mapping, a key whose lower-cased form is literally an entry of
  the field list is masked.\<close>

lemma redactProps_masks:
  "(k, v) \<in> set (redactProps kvs F) \<Longrightarrow> toLowerCase k \<in> set F \<Longrightarrow> v = JStr ''[REDACTED]''"
  by (induction kvs) auto

text \<open>
  Claim C4 (redaction totality) asks that every key that matches an entry of the field
  list case-insensitively is masked. The code lower-cases the key only: the entry
  \<open>creditCard\<close> of the default field list is compared as it is written, so the key
  \<open>creditCard\<close> (lower-cased to \<open>creditcard\<close>) does not match it, and the card number
  is left in the output.
\<close>

theorem creditCard_not_redacted:
  "redactObject (JObj [(''creditCard'', JStr ''4111111111111111'')]) defaultRedactFields
     = JObj [(''creditCard'', JStr ''4111111111111111'')]"
  by (simp add: defaultRedactFields_def toLowerCase_def toLowerCase_char_def)

section \<open>Properties of object literals\<close>

lemma map_of_spread:
  "map_of (spread target src) = map_of target ++ map_of (rev src)"
  unfolding spread_def
  by (induction src arbitrary: target)
     (auto simp: update_conv' map_add_def fun_eq_iff split: option.splits)

lemma map_of_objectLiteral:
  "map_of (objectLiteral props) = map_of (rev props)"
  by (simp add: objectLiteral_def map_of_spread)

lemma successLogData_responseTime:
  "map_of (successLogData req r m as config now) ''responseTime''
     = Some (timingValue (responseTimeOf config req now))"
  by (simp add: successLogData_def map_of_objectLiteral Let_def)

lemma successLogData_isSlow:
  "map_of (successLogData req r m as config now) ''isSlow''
     = Some (JBool (exceeds (responseTimeOf config req now) (slowRequestThreshold config)))"
  by (simp add: successLogData_def map_of_objectLiteral Let_def)

lemma errorLogData_statusCode:
  "map_of (errorLogData err req config now) ''statusCode''
     = Some (JNum (orElse (errStatusCode err) (orElse (errStatus err) 500)))"
  by (simp add: errorLogData_def map_of_objectLiteral Let_def)

section \<open>Properties of the wrapped operations\<close>

text \<open>What one call hands to the sink, and what it does to \<open>logged\<close>.\<close>

lemma wrapped_sinkCalls:
  "sinkCalls (snd (wrapped config req originals c st)) =
     sinkCalls st @ (if \<not> logged st \<and> autoLogFires config req c then [autoLog config req c] else [])"
  by (auto simp: wrapped_def logSuccess_def logWarning_def callSink_def autoLogFires_def
        autoLog_def Let_def split: prod.splits option.splits)

lemma wrapped_logged:
  "logged (snd (wrapped config req originals c st)) = (logged st \<or> autoLogFires config req c)"
  by (auto simp: wrapped_def logSuccess_def logWarning_def callSink_def autoLogFires_def
        Let_def split: prod.splits option.splits)

lemma runCalls_logged:
  "logged st \<Longrightarrow> sinkCalls (runCalls config req originals cs st) = sinkCalls st"
  by (induction cs arbitrary: st) (simp_all add: wrapped_sinkCalls wrapped_logged)

lemma runCalls_sinkCalls:
  "\<not> logged st \<Longrightarrow>
   sinkCalls (runCalls config req originals cs st) =
     sinkCalls st @ (case List.find (autoLogFires config req) cs of
                       None \<Rightarrow> []
                     | Some c \<Rightarrow> [autoLog config req c])"
proof (induction cs arbitrary: st)
  case Nil
  then show ?case by simp
next
  case (Cons c cs)
  show ?case
  proof (cases "autoLogFires config req c")
    case True
    then have "logged (snd (wrapped config req originals c st))"
      by (simp add: wrapped_logged)
    then show ?thesis
      using True Cons.prems by (simp add: runCalls_logged wrapped_sinkCalls)
  next
    case False
    then have "\<not> logged (snd (wrapped config req originals c st))"
      using Cons.prems by (simp add: wrapped_logged)
    then show ?thesis
      using False Cons.IH by (simp add: wrapped_sinkCalls)
  qed
qed

lemma readonly_no_success:
  assumes "method req \<notin> set [''POST'', ''PUT'', ''PATCH'', ''DELETE'']"
  shows "\<not> shouldLogSuccess r req cfg now"
  using assms by (simp add: shouldLogSuccess_def)

text \<open>The example request is what the success handler makes of the incoming one.\<close>

lemma stamped_request:
  "successHandler exampleConfig (incomingRequest m) 1700000000000 initialState
     = (exampleRequest m, initialState)"
  by (simp add: successHandler_def exampleConfig_def createConfig_def exampleRequest_def
        initialState_def)

text \<open>For a state-changing method the wrapper's success test depends on the status
  only, so such a request is never logged as a warning, however slow it is.\<close>

lemma mutation_never_warned:
  assumes "method req \<in> set [''POST'', ''PUT'', ''PATCH'', ''DELETE'']"
  shows "sinkCalls (snd (wrapped config req originals c st)) =
           sinkCalls st @
           (if \<not> logged st \<and> 200 \<le> statusCode (res c) \<and> statusCode (res c) < 300
            then [(success (logLevels config),
                   successLogData req (res c) (via c) (args c) config (now1 c))]
            else [])"
proof -
  have s: "shouldLogSuccess (res c) req None (now1 c)
             = (200 \<le> statusCode (res c) \<and> statusCode (res c) < 300)"
    using assms by (simp add: shouldLogSuccess_def)
  have w: "shouldLogWarning (res c) req (Some config) (now1 c)
             \<Longrightarrow> 200 \<le> statusCode (res c) \<and> statusCode (res c) < 300"
    by (auto simp: shouldLogWarning_def Let_def split: option.splits if_splits)
  show ?thesis
    using s w by (auto simp: wrapped_sinkCalls autoLogFires_def autoLog_def)
qed

subsection \<open>Read-only methods\<close>

text \<open>
  Claim C1 says that a request with a read-only method is never logged automatically,
  whatever its status and elapsed time. As stated it fails: \<open>shouldLogWarning\<close> does not
  look at the method, so the claim's own example (status 200, \<open>GET\<close>, 5000 ms elapsed,
  threshold 1000 ms) is logged at \<open>WARNING\<close>.
\<close>

theorem slow_GET_logged_as_warning:
  "map fst (sinkCalls (snd (wrapped exampleConfig (exampleRequest ''GET'') recordingOriginals
       (callAt Json [JObj [(''ok'', JBool True)]] 200 5000) initialState))) = [''WARNING'']"
  by code_simp

text \<open>
  Claim C1, amended: for a request whose method is not one of \<open>POST\<close>, \<open>PUT\<close>,
  \<open>PATCH\<close>, \<open>DELETE\<close>, a call of a wrapped operation never emits a success log; it
  emits a warning log, and only that, exactly when no automatic log was emitted before,
  performance is tracked, a start time was recorded, the status is in \<open>[200,300)\<close> and
  the elapsed time exceeds the threshold. Otherwise it emits nothing.
\<close>

theorem readonly_method_auto_log:
  assumes "method req \<notin> set [''POST'', ''PUT'', ''PATCH'', ''DELETE'']"
  shows "sinkCalls (snd (wrapped config req originals c st)) =
           sinkCalls st @
           (if \<not> logged st \<and> trackPerformance config
               \<and> (case startTime req of
                     None \<Rightarrow> False
                   | Some t \<Rightarrow> t \<noteq> 0 \<and> slowRequestThreshold config < now1 c - t)
               \<and> 200 \<le> statusCode (res c) \<and> statusCode (res c) < 300
            then [(warning (logLevels config),
                   warningLogData req (res c) (via c) (args c) config (now2 c))]
            else [])"
proof -
  have s: "\<not> shouldLogSuccess (res c) req None (now1 c)"
    using assms by (rule readonly_no_success)
  have w: "shouldLogWarning (res c) req (Some config) (now1 c) =
             (trackPerformance config
              \<and> (case startTime req of
                    None \<Rightarrow> False
                  | Some t \<Rightarrow> t \<noteq> 0 \<and> slowRequestThreshold config < now1 c - t)
              \<and> 200 \<le> statusCode (res c) \<and> statusCode (res c) < 300)"
    by (auto simp: shouldLogWarning_def Let_def split: option.splits)
  show ?thesis
    using s w by (simp add: wrapped_sinkCalls autoLogFires_def autoLog_def)
qed

text \<open>The amended claim at a \<open>GET\<close> request: nothing is emitted after 500 ms with
  status 200, nor after 5000 ms with status 404.\<close>

theorem readonly_method_auto_log_witness:
  "method (exampleRequest ''GET'') \<notin> set [''POST'', ''PUT'', ''PATCH'', ''DELETE'']
   \<and> sinkCalls (snd (wrapped exampleConfig (exampleRequest ''GET'') recordingOriginals
        (callAt Json [JObj [(''ok'', JBool True)]] 200 500) initialState)) = []
   \<and> sinkCalls (snd (wrapped exampleConfig (exampleRequest ''GET'') recordingOriginals
        (callAt Json [JObj [(''ok'', JBool True)]] 404 5000) initialState)) = []"
proof -
  have m: "method (exampleRequest ''GET'') \<notin> set [''POST'', ''PUT'', ''PATCH'', ''DELETE'']"
    by (simp add: exampleRequest_def incomingRequest_def)
  show ?thesis
    using m
      readonly_method_auto_log [OF m, of exampleConfig recordingOriginals
        "callAt Json [JObj [(''ok'', JBool True)]] 200 500" initialState]
      readonly_method_auto_log [OF m, of exampleConfig recordingOriginals
        "callAt Json [JObj [(''ok'', JBool True)]] 404 5000" initialState]
    by (simp add: exampleConfig_def createConfig_def exampleRequest_def incomingRequest_def
          callAt_def initialState_def)
qed

subsection \<open>Slow state-changing requests\<close>

text \<open>
  Claim C2 says that a request with a state-changing method and a status in
  \<open>[200,300)\<close> is logged at \<open>WARNING\<close>, never at \<open>SUCCESS\<close>, when its elapsed time
  exceeds the threshold. The wrapper calls \<open>shouldLogSuccess(res, req)\<close> without the
  configuration, so the slow check inside it is skipped: the claim's example (status 200,
  \<open>PUT\<close>, 1500 ms elapsed, threshold 1000 ms) is logged at \<open>SUCCESS\<close>, with its
  \<open>isSlow\<close> flag set, and no warning follows.
\<close>

theorem slow_PUT_logged_as_success:
  "sinkCalls (snd (wrapped exampleConfig (exampleRequest ''PUT'') recordingOriginals
       (callAt Json [JObj [(''id'', JNum 7)]] 200 1500) initialState)) =
     [(''SUCCESS'',
       [(''title'', JStr ''PUT /users''),
        (''message'', JStr ''Request completed successfully''),
        (''method'', JStr ''PUT''), (''path'', JStr ''/users''),
        (''body'', JObj [(''name'', JStr ''Ann''), (''password'', JStr ''[REDACTED]'')]),
        (''response'', JObj [(''id'', JNum 7)]),
        (''responseTime'', JNum 1500), (''statusCode'', JNum 200),
        (''isSlow'', JBool True)])]"
  by code_simp

subsection \<open>Performance tracking switched off\<close>

text \<open>
  Claim C9 says that with performance tracking disabled every automatic success record
  has a \<open>null\<close> response time and a false \<open>isSlow\<close> flag, and that no warning is
  produced. The flag is computed as \<open>null > config.slowRequestThreshold\<close>, in which
  \<open>null\<close> counts as \<open>0\<close>: with a negative threshold the flag is true.
\<close>

theorem untracked_negative_threshold_isSlow:
  "map (\<lambda>(level, logData). (level, map_of logData ''responseTime'', map_of logData ''isSlow''))
     (sinkCalls (snd (wrapped untrackedConfig (incomingRequest ''POST'') recordingOriginals
        (callAt End [] 200 50) initialState)))
   = [(''SUCCESS'', Some JNull, Some (JBool True))]"
  by code_simp

text \<open>
  Claim C9, amended: when performance tracking is disabled and the slow-request threshold
  is not negative, the warning test fails on every call, a call emits at most the success
  record, and every success record has the response time \<open>null\<close> and the \<open>isSlow\<close>
  flag \<open>false\<close>.
\<close>

theorem untracked_success_record:
  assumes "\<not> trackPerformance config" and "0 \<le> slowRequestThreshold config"
  shows "\<not> shouldLogWarning (res c) req (Some config) (now1 c)
         \<and> sinkCalls (snd (wrapped config req originals c st)) =
             sinkCalls st @
             (if \<not> logged st \<and> shouldLogSuccess (res c) req None (now1 c)
              then [(success (logLevels config),
                     successLogData req (res c) (via c) (args c) config (now1 c))]
              else [])
         \<and> map_of (successLogData req (res c) (via c) (args c) config (now1 c)) ''responseTime''
             = Some JNull
         \<and> map_of (successLogData req (res c) (via c) (args c) config (now1 c)) ''isSlow''
             = Some (JBool False)"
proof -
  have w: "\<not> shouldLogWarning (res c) req (Some config) (now1 c)"
    using assms(1) by (simp add: shouldLogWarning_def split: option.splits)
  have t: "responseTimeOf config req (now1 c) = NullTime"
    using assms(1) by (simp add: responseTimeOf_def)
  show ?thesis
    using w t assms(2)
    by (simp add: wrapped_sinkCalls autoLogFires_def autoLog_def
          successLogData_responseTime successLogData_isSlow)
qed

text \<open>The amended claim at the default threshold of 1000 ms, tracking disabled: a
  \<open>POST\<close> answered with status 200 is logged at \<open>SUCCESS\<close> with a \<open>null\<close> response
  time and \<open>isSlow\<close> false.\<close>

theorem untracked_success_record_witness:
  "\<not> trackPerformance (exampleConfig\<lparr>trackPerformance := False\<rparr>)
   \<and> 0 \<le> slowRequestThreshold (exampleConfig\<lparr>trackPerformance := False\<rparr>)
   \<and> map (\<lambda>(level, logData). (level, map_of logData ''responseTime'', map_of logData ''isSlow''))
       (sinkCalls (snd (wrapped (exampleConfig\<lparr>trackPerformance := False\<rparr>)
          (incomingRequest ''POST'') recordingOriginals (callAt End [] 200 50) initialState)))
     = [(''SUCCESS'', Some JNull, Some (JBool False))]"
  using untracked_success_record [where config = "exampleConfig\<lparr>trackPerformance := False\<rparr>"
      and c = "callAt End [] 200 50" and req = "incomingRequest ''POST''"
      and originals = recordingOriginals and st = initialState]
  by (simp add: exampleConfig_def createConfig_def defaultLogLevels_def shouldLogSuccess_def
        incomingRequest_def callAt_def initialState_def)

subsection \<open>At most one automatic log per request\<close>

text \<open>
  Claim C5 says that within one request at most one automatic log is emitted and that it
  belongs to the first call of a response-emitting operation. The second half fails: the
  wrapper tests every call until one passes. A \<open>GET\<close> request whose first call
  (\<open>json\<close>) comes 500 ms after the start and whose second call (\<open>send\<close>) comes 1500 ms
  after it emits nothing at the first call and a warning at the second.
\<close>

theorem auto_log_by_second_call:
  "sinkCalls (runCalls exampleConfig
       (fst (successHandler exampleConfig (incomingRequest ''GET'') 1700000000000 initialState))
       recordingOriginals
       [callAt Json [JStr ''a''] 200 500]
       (snd (successHandler exampleConfig (incomingRequest ''GET'') 1700000000000 initialState)))
     = []
   \<and> map fst (sinkCalls (runCalls exampleConfig
       (fst (successHandler exampleConfig (incomingRequest ''GET'') 1700000000000 initialState))
       recordingOriginals
       [callAt Json [JStr ''a''] 200 500, callAt Send [JStr ''a''] 200 1500]
       (snd (successHandler exampleConfig (incomingRequest ''GET'') 1700000000000 initialState))))
     = [''WARNING'']"
  by code_simp

text \<open>
  Claim C5, amended: for any finite sequence of calls of the wrapped operations on a
  request that went through the success handler, at most one automatic log is emitted; it
  is the log of the first call of the sequence that passes the success or the warning
  test (none when no call passes), and no later call emits another.
\<close>

theorem at_most_one_auto_log:
  "sinkCalls (runCalls config (fst (successHandler config req0 t0 st0)) originals cs
                (snd (successHandler config req0 t0 st0))) =
     sinkCalls st0 @
     (case List.find (autoLogFires config (fst (successHandler config req0 t0 st0))) cs of
        None \<Rightarrow> []
      | Some c \<Rightarrow> [autoLog config (fst (successHandler config req0 t0 st0)) c])
   \<and> length (sinkCalls (runCalls config (fst (successHandler config req0 t0 st0)) originals cs
                (snd (successHandler config req0 t0 st0)))) \<le> length (sinkCalls st0) + 1"
proof -
  have "\<not> logged (snd (successHandler config req0 t0 st0))"
    by (simp add: successHandler_def)
  from runCalls_sinkCalls [OF this, of config _ originals cs]
  show ?thesis
    by (simp add: successHandler_def split: option.splits)
qed

subsection \<open>Transparency\<close>

text \<open>
  Claim C6 says that every wrapped operation invokes the underlying operation with the
  original arguments and returns its value, whether or not a log fires. The wrapper logs
  before it forwards and does not catch what the log functions raise: with a sink that
  raises, the call \<open>res.json({id: 7})\<close> of a \<open>POST\<close> answered with status 201 does not
  return the underlying operation's value and never reaches the underlying operation.
\<close>

theorem sink_fault_skips_underlying:
  "fst (wrapped faultyConfig (exampleRequest ''POST'') recordingOriginals
          (callAt Json [JObj [(''id'', JNum 7)]] 201 50) initialState)
     \<noteq> Inr (fst (recordingOriginals Json [JObj [(''id'', JNum 7)]] (host initialState)))
   \<and> host (snd (wrapped faultyConfig (exampleRequest ''POST'') recordingOriginals
          (callAt Json [JObj [(''id'', JNum 7)]] 201 50) initialState)) = []
   \<and> snd (recordingOriginals Json [JObj [(''id'', JNum 7)]] (host initialState))
       = [Underlying Json [JObj [(''id'', JNum 7)]]]"
  by code_simp

text \<open>
  Claim C6, amended: a wrapped operation invokes the underlying operation on the host's
  state with exactly the original arguments and returns its value unchanged, provided the
  call emits no automatic log (one was emitted before, or neither test passes) or the sink
  returns normally on the record of this call.
\<close>

theorem wrapped_transparent:
  assumes "logged st \<or> \<not> autoLogFires config req c
           \<or> logstyx config (fst (autoLog config req c)) (snd (autoLog config req c)) = None"
  shows "fst (wrapped config req originals c st)
           = Inr (fst (originals (via c) (args c) (host st)))
         \<and> host (snd (wrapped config req originals c st))
           = snd (originals (via c) (args c) (host st))"
  using assms
  by (auto simp: wrapped_def logSuccess_def logWarning_def callSink_def autoLogFires_def
        autoLog_def Let_def split: prod.splits option.splits if_splits)

text \<open>The amended claim at a \<open>POST\<close> answered with status 201 through \<open>res.json\<close>,
  with a sink that accepts the record: the underlying \<open>json\<close> is called with the same
  argument and its value is returned.\<close>

theorem wrapped_transparent_witness:
  "logstyx exampleConfig
      (fst (autoLog exampleConfig (exampleRequest ''POST'')
              (callAt Json [JObj [(''id'', JNum 7)]] 201 50)))
      (snd (autoLog exampleConfig (exampleRequest ''POST'')
              (callAt Json [JObj [(''id'', JNum 7)]] 201 50))) = None
   \<and> fst (wrapped exampleConfig (exampleRequest ''POST'') recordingOriginals
          (callAt Json [JObj [(''id'', JNum 7)]] 201 50) initialState) = Inr ''sent''
   \<and> host (snd (wrapped exampleConfig (exampleRequest ''POST'') recordingOriginals
          (callAt Json [JObj [(''id'', JNum 7)]] 201 50) initialState))
       = [Underlying Json [JObj [(''id'', JNum 7)]]]"
proof -
  have a: "logstyx exampleConfig
      (fst (autoLog exampleConfig (exampleRequest ''POST'')
              (callAt Json [JObj [(''id'', JNum 7)]] 201 50)))
      (snd (autoLog exampleConfig (exampleRequest ''POST'')
              (callAt Json [JObj [(''id'', JNum 7)]] 201 50))) = None"
    by (simp add: exampleConfig_def createConfig_def acceptingSink_def)
  show ?thesis
    using a wrapped_transparent [where st = initialState and config = exampleConfig
        and req = "exampleRequest ''POST''"
        and c = "callAt Json [JObj [(''id'', JNum 7)]] 201 50"
        and originals = recordingOriginals]
    by (simp add: recordingOriginals_def callAt_def initialState_def)
qed

section \<open>Properties of the error path\<close>

subsection \<open>Severity\<close>

text \<open>The level depends on \<open>err.statusCode\<close> alone.\<close>

lemma errorLogLevel_critical:
  "errorLogLevel err config =
     (if (\<exists>n. errStatusCode err = Some n \<and> 500 \<le> n) then critical (logLevels config)
      else error (logLevels config))"
  by (auto simp: errorLogLevel_def split: option.splits)

text \<open>
  Claim C3 says that an error is logged at \<open>CRITICAL\<close> when its resolved status
  (\<open>err.statusCode\<close>, else \<open>err.status\<close>, else 500) is at least 500. The level is chosen
  from \<open>err.statusCode\<close> alone: an error that carries its status 503 in \<open>err.status\<close> is
  answered with status 503 and recorded with \<open>statusCode\<close> 503, but logged at
  \<open>ERROR\<close>.
\<close>

theorem status_503_alias_logged_as_error:
  "errorHandler exampleConfig False recordingRespond recordingNext
       (exampleError None (Some 503)) (exampleRequest ''GET'') 1700000000020 initialState =
     (None,
      \<lparr>logged = False,
       sinkCalls =
         [(''ERROR'',
           [(''title'', JStr ''GET /users''),
            (''message'', JStr ''upstream unavailable''),
            (''method'', JStr ''GET''), (''path'', JStr ''/users''),
            (''stack'', JStr ''Error: upstream unavailable''),
            (''errorType'', JStr ''Error''), (''code'', JUndefined),
            (''body'', JObj [(''name'', JStr ''Ann''), (''password'', JStr ''[REDACTED]'')]),
            (''responseTime'', JNum 20), (''statusCode'', JNum 503)])],
       host =
         [Responded 503 (JObj [(''error'', JStr ''upstream unavailable'')]),
          Forwarded (exampleError None (Some 503))]\<rparr>)"
  by code_simp

subsection \<open>Status of the response and of the record\<close>

text \<open>
  Claim C10: for every error the error handler receives, the status the client's JSON
  response is sent with equals the \<open>statusCode\<close> field of the record handed to the
  sink; both are \<open>err.statusCode\<close>, else \<open>err.status\<close>, else 500.
\<close>

theorem error_status_agrees:
  "\<exists>s level logData.
      s = orElse (errStatusCode err) (orElse (errStatus err) 500)
    \<and> sinkCalls (snd (errorHandler config development respond forward err req now st))
        = sinkCalls st @ [(level, logData)]
    \<and> map_of logData ''statusCode'' = Some (JNum s)
    \<and> (host (snd (errorHandler config development respond forward err req now st))
          = respond s (errorBody development err) (host st)
       \<or> host (snd (errorHandler config development respond forward err req now st))
          = forward err (respond s (errorBody development err) (host st)))"
  by (auto simp: errorHandler_def logError_def callSink_def errorLogData_statusCode Let_def
        split: prod.splits option.splits)

subsection \<open>A sink that raises\<close>

text \<open>
  Claim C8 says that a fault of the sink never reaches the request/response cycle, on the
  success path and on the error path. Neither path catches it. On the success path a
  \<open>DELETE\<close> answered with status 204 through \<open>res.end()\<close>, with a sink that raises,
  raises the sink's exception out of \<open>res.end()\<close>, and the underlying \<open>end\<close> is not
  called: no response is sent by that call.
\<close>

theorem sink_fault_reaches_caller:
  "wrapped faultyConfig (exampleRequest ''DELETE'') recordingOriginals
       (callAt End [] 204 30) initialState =
     (Inl (Thrown ''sink unavailable''),
      \<lparr>logged = True,
       sinkCalls =
         [(''SUCCESS'',
           [(''title'', JStr ''DELETE /users''),
            (''message'', JStr ''Request completed successfully''),
            (''method'', JStr ''DELETE''), (''path'', JStr ''/users''),
            (''body'', JObj [(''name'', JStr ''Ann''), (''password'', JStr ''[REDACTED]'')]),
            (''response'', JNull),
            (''responseTime'', JNum 30), (''statusCode'', JNum 204),
            (''isSlow'', JBool False)])],
       host = []\<rparr>)"
  by code_simp

text \<open>
  Claim C8, amended: when the sink raises on the record it is handed, the exception
  propagates to the caller on both paths. On the error path the client's response has been
  written before the sink is called and stays written, and the error is not forwarded to
  \<open>next\<close>. On the success path the exception leaves the wrapped operation before the
  underlying operation is invoked, so the host's state is unchanged.
\<close>

theorem sink_fault_propagates:
  "(logstyx config (errorLogLevel err config) (errorLogData err req config now) = Some e
      \<longrightarrow> errorHandler config development respond forward err req now st =
            (Some e,
             st\<lparr>host := respond (orElse (errStatusCode err) (orElse (errStatus err) 500))
                          (errorBody development err) (host st),
                sinkCalls := sinkCalls st @
                  [(errorLogLevel err config, errorLogData err req config now)]\<rparr>))
   \<and> (\<not> logged st \<and> autoLogFires config req c
       \<and> logstyx config (fst (autoLog config req c)) (snd (autoLog config req c)) = Some e
      \<longrightarrow> wrapped config req originals c st =
            (Inl e, st\<lparr>logged := True, sinkCalls := sinkCalls st @ [autoLog config req c]\<rparr>))"
  by (auto simp: errorHandler_def logError_def wrapped_def logSuccess_def logWarning_def
        callSink_def autoLogFires_def autoLog_def Let_def split: prod.splits option.splits)

text \<open>The amended claim with a sink that raises on every record: an error with status
  400 on a \<open>GET\<close>, and a \<open>POST\<close> answered with status 200 through \<open>res.send\<close>.\<close>

theorem sink_fault_propagates_witness:
  "logstyx faultyConfig (errorLogLevel (exampleError (Some 400) None) faultyConfig)
      (errorLogData (exampleError (Some 400) None) (exampleRequest ''GET'') faultyConfig
         1700000000020) = Some (Thrown ''sink unavailable'')
   \<and> fst (errorHandler faultyConfig False recordingRespond recordingNext
            (exampleError (Some 400) None) (exampleRequest ''GET'') 1700000000020 initialState)
       = Some (Thrown ''sink unavailable'')
   \<and> host (snd (errorHandler faultyConfig False recordingRespond recordingNext
            (exampleError (Some 400) None) (exampleRequest ''GET'') 1700000000020 initialState))
       = [Responded 400 (JObj [(''error'', JStr ''upstream unavailable'')])]
   \<and> \<not> logged initialState
   \<and> autoLogFires faultyConfig (exampleRequest ''POST'') (callAt Send [JStr ''ok''] 200 10)
   \<and> fst (wrapped faultyConfig (exampleRequest ''POST'') recordingOriginals
            (callAt Send [JStr ''ok''] 200 10) initialState) = Inl (Thrown ''sink unavailable'')
   \<and> host (snd (wrapped faultyConfig (exampleRequest ''POST'') recordingOriginals
            (callAt Send [JStr ''ok''] 200 10) initialState)) = []"
proof -
  have s: "\<And>level logData. logstyx faultyConfig level logData = Some (Thrown ''sink unavailable'')"
    by (simp add: faultyConfig_def createConfig_def failingSink_def)
  have f: "autoLogFires faultyConfig (exampleRequest ''POST'') (callAt Send [JStr ''ok''] 200 10)"
    by (simp add: autoLogFires_def shouldLogSuccess_def exampleRequest_def incomingRequest_def
          callAt_def)
  have l: "\<not> logged initialState"
    by (simp add: initialState_def)
  show ?thesis
    using s f l
      sink_fault_propagates [where config = faultyConfig
        and err = "exampleError (Some 400) None" and req = "exampleRequest ''GET''"
        and now = 1700000000020 and e = "Thrown ''sink unavailable''"
        and development = False and respond = recordingRespond and forward = recordingNext
        and st = initialState and c = "callAt Send [JStr ''ok''] 200 10"
        and originals = recordingOriginals]
      sink_fault_propagates [where config = faultyConfig
        and err = "exampleError (Some 400) None" and req = "exampleRequest ''POST''"
        and now = 1700000000020 and e = "Thrown ''sink unavailable''"
        and development = False and respond = recordingRespond and forward = recordingNext
        and st = initialState and c = "callAt Send [JStr ''ok''] 200 10"
        and originals = recordingOriginals]
    by (simp add: initialState_def recordingRespond_def exampleError_def errorBody_def
          objectLiteral_def spread_def)
qed

end
